theory Spec2Isabelle
  imports Main
begin

section \<open>Error handling framework (src/lib/error-handler.ts)\<close>

subsection \<open>Strings\<close>

text \<open>
  A JavaScript string is modelled as a \<^typ>\<open>string\<close> whose characters are the code
  units below 256 (the Latin-1 range). \<open>toLowerCase\<close> maps A-Z and the upper-case
  letters U+00C0..U+00DE (U+00D7, the multiplication sign, apart) to the code unit 32
  above, as \<open>String.prototype.toLowerCase\<close> does on that range.
\<close>

definition toLowerChar :: "char \<Rightarrow> char" where
  "toLowerChar c =
     (let n = (of_char c :: nat)
      in if (65 \<le> n \<and> n \<le> 90) \<or> (192 \<le> n \<and> n \<le> 222 \<and> n \<noteq> 215)
         then char_of (n + 32) else c)"

definition toLowerCase :: "string \<Rightarrow> string" where
  "toLowerCase s = map toLowerChar s"

definition startsWith :: "string \<Rightarrow> string \<Rightarrow> bool" where
  "startsWith s p = (take (length p) s = p)"

text \<open>\<open>String.prototype.includes\<close> (named \<open>str_includes\<close> here): the needle occurs at some position of the string.\<close>

fun str_includes :: "string \<Rightarrow> string \<Rightarrow> bool" where
  "str_includes [] needle = (needle = [])"
| "str_includes (c # cs) needle = (startsWith (c # cs) needle \<or> str_includes cs needle)"

subsection \<open>Standard error codes and the custom error class (lines 14-72)\<close>

datatype ErrorCode =
    FILE_TOO_LARGE
  | INVALID_FILE_TYPE
  | FILE_NOT_FOUND
  | UPLOAD_FAILED
  | DOWNLOAD_FAILED
  | INDEXING_TIMEOUT
  | INDEXING_FAILED
  | QUERY_FAILED
  | STORE_NOT_FOUND
  | STORE_ACCESS_DENIED
  | RATE_LIMITED
  | API_ERROR
  | AUTH_FAILED
  | VALIDATION_ERROR
  | INVALID_INPUT
  | NETWORK_ERROR
  | UNKNOWN_ERROR

text \<open>
  \<open>class MCPError extends Error\<close>: the code, the message, the retryable flag (default
  false) and the optional details, a map from keys to values kept as an association
  list. Its \<open>name\<close> is always \<open>MCPError\<close> and is not a field of the model.
\<close>

record MCPError =
  code :: ErrorCode
  message :: string
  retryable :: bool
  details :: "(string \<times> string) list option"

definition newMCPError ::
    "ErrorCode \<Rightarrow> string \<Rightarrow> bool \<Rightarrow> (string \<times> string) list option \<Rightarrow> MCPError" where
  "newMCPError c m r d = \<lparr>code = c, message = m, retryable = r, details = d\<rparr>"

text \<open>
  The values a JavaScript \<open>catch\<close> can receive (\<open>error: unknown\<close>), by the shapes
  the error handler tells apart: an \<open>MCPError\<close>; another \<open>Error\<close> instance with its
  name, its message and a \<open>status\<close> property when it has one; another non-null object
  with its \<open>status\<close> property when it has one; a string; \<open>undefined\<close>; any other
  primitive or \<open>null\<close>.
\<close>

datatype thrown =
    ThrownMCP MCPError
  | ThrownError string string "int option"
  | ThrownObject "int option"
  | ThrownString string
  | ThrownUndefined
  | ThrownOther

subsection \<open>Retryability (lines 78-101)\<close>

definition RETRYABLE_ERROR_CODES :: "ErrorCode set" where
  "RETRYABLE_ERROR_CODES = {RATE_LIMITED, NETWORK_ERROR, INDEXING_TIMEOUT, API_ERROR}"

definition RETRYABLE_HTTP_STATUS_CODES :: "int set" where
  "RETRYABLE_HTTP_STATUS_CODES = {408, 429, 500, 502, 503, 504}"

text \<open>\<open>statusCode && RETRYABLE_HTTP_STATUS_CODES.has(statusCode)\<close>: an absent status and
  the status 0 are falsy.\<close>

definition retryableStatus :: "int option \<Rightarrow> bool" where
  "retryableStatus st =
     (case st of None \<Rightarrow> False
      | Some statusCode \<Rightarrow> statusCode \<noteq> 0 \<and> statusCode \<in> RETRYABLE_HTTP_STATUS_CODES)"

fun isRetryable :: "thrown \<Rightarrow> bool" where
  "isRetryable (ThrownMCP e) = (retryable e \<or> code e \<in> RETRYABLE_ERROR_CODES)"
| "isRetryable (ThrownError n m st) = retryableStatus st"
| "isRetryable (ThrownObject st) = retryableStatus st"
| "isRetryable (ThrownString s) = False"
| "isRetryable ThrownUndefined = False"
| "isRetryable ThrownOther = False"

subsection \<open>Retry with exponential backoff (lines 107-163)\<close>

text \<open>
  The unit of work \<open>fn\<close> is an effectful computation: it takes the state of the world
  and returns either a failure (\<open>Inl\<close>, the rejected promise) or a value, with the new
  state. The observer \<open>onRetry\<close> is a callback of the caller and may itself throw.
  The numbers of the options (\<open>maxAttempts\<close>, the delays) are integers; an absent
  option is \<open>None\<close> and gets its default.
\<close>

record 's RetryOptions =
  maxAttempts :: "int option"
  delays :: "int list option"
  onRetry :: "(int \<Rightarrow> thrown \<Rightarrow> 's \<Rightarrow> (thrown + unit) \<times> 's) option"

definition DEFAULT_DELAYS :: "int list" where
  "DEFAULT_DELAYS = [500, 1000, 2000]"

definition defaultRetryOptions :: "'s RetryOptions" where
  "defaultRetryOptions = \<lparr>maxAttempts = None, delays = None, onRetry = None\<rparr>"

text \<open>\<open>delays[attempt - 1] ?? delays[delays.length - 1] ?? 1000\<close>\<close>

definition baseDelayFor :: "int list \<Rightarrow> int \<Rightarrow> int" where
  "baseDelayFor ds attempt =
     (if 0 \<le> attempt - 1 \<and> nat (attempt - 1) < length ds then ds ! nat (attempt - 1)
      else if ds \<noteq> [] then last ds
      else 1000)"

text \<open>
  What a run of \<open>retryWithBackoff\<close> did: the settled promise (\<open>Inl\<close> the thrown
  value), the state it left, how many times it called \<open>fn\<close>, and the base delay of every
  sleep in order. The jitter \<open>Math.random() * 200\<close> added to each sleep and the log
  lines are not part of the model.
\<close>

record ('a, 's) RetryRun =
  settled :: "thrown + 'a"
  after :: 's
  invocations :: nat
  sleeps :: "int list"

definition callOnRetry ::
    "(int \<Rightarrow> thrown \<Rightarrow> 's \<Rightarrow> (thrown + unit) \<times> 's) option \<Rightarrow> int \<Rightarrow> thrown \<Rightarrow> 's
       \<Rightarrow> (thrown + unit) \<times> 's" where
  "callOnRetry cb attempt error s =
     (case cb of None \<Rightarrow> (Inr (), s) | Some f \<Rightarrow> f attempt error s)"

text \<open>
  The \<open>for\<close> loop, from the given attempt on. \<open>lastError\<close> is the variable of the same
  name, \<open>n\<close> counts the calls of \<open>fn\<close> so far and \<open>ws\<close> collects the sleeps so far.
\<close>

function retryLoop ::
    "('s \<Rightarrow> (thrown + 'a) \<times> 's) \<Rightarrow> int \<Rightarrow> int list
       \<Rightarrow> (int \<Rightarrow> thrown \<Rightarrow> 's \<Rightarrow> (thrown + unit) \<times> 's) option
       \<Rightarrow> int \<Rightarrow> thrown \<Rightarrow> 's \<Rightarrow> nat \<Rightarrow> int list \<Rightarrow> ('a, 's) RetryRun" where
  "retryLoop fn maxA ds cb attempt lastError s n ws =
     (if attempt \<le> maxA then
        (case fn s of
           (Inr v, s1) \<Rightarrow> \<lparr>settled = Inr v, after = s1, invocations = Suc n, sleeps = ws\<rparr>
         | (Inl error, s1) \<Rightarrow>
             if attempt = maxA \<or> \<not> isRetryable error
             then \<lparr>settled = Inl error, after = s1, invocations = Suc n, sleeps = ws\<rparr>
             else
               (case callOnRetry cb attempt error s1 of
                  (Inl thrownByObserver, s2) \<Rightarrow>
                    \<lparr>settled = Inl thrownByObserver, after = s2, invocations = Suc n,
                     sleeps = ws\<rparr>
                | (Inr u, s2) \<Rightarrow>
                    retryLoop fn maxA ds cb (attempt + 1) error s2 (Suc n)
                      (ws @ [baseDelayFor ds attempt])))
      else \<lparr>settled = Inl lastError, after = s, invocations = n, sleeps = ws\<rparr>)"
  by pat_completeness auto
termination
  by (relation "measure (\<lambda>(fn, maxA, ds, cb, attempt, lastError, s, n, ws).
        nat (maxA + 1 - attempt))") auto

declare retryLoop.simps [simp del]

definition retryWithBackoff ::
    "('s \<Rightarrow> (thrown + 'a) \<times> 's) \<Rightarrow> 's RetryOptions \<Rightarrow> 's \<Rightarrow> ('a, 's) RetryRun" where
  "retryWithBackoff fn options s =
     retryLoop fn
       (case maxAttempts options of None \<Rightarrow> 3 | Some m \<Rightarrow> m)
       (case delays options of None \<Rightarrow> DEFAULT_DELAYS | Some ds \<Rightarrow> ds)
       (onRetry options) 1 ThrownUndefined s 0 []"

subsection \<open>Parsing errors into the standard form (lines 181-265)\<close>

definition parseErrorObject :: "string \<Rightarrow> string \<Rightarrow> MCPError" where
  "parseErrorObject errName errMessage =
     (let msg = toLowerCase errMessage;
          dets = Some [(''original_error'', errMessage), (''name'', errName)]
      in if str_includes msg ''too large'' \<or> str_includes msg ''file size''
           then newMCPError FILE_TOO_LARGE errMessage False dets
         else if str_includes msg ''invalid file'' \<or> str_includes msg ''unsupported''
           then newMCPError INVALID_FILE_TYPE errMessage False dets
         else if str_includes msg ''rate limit'' \<or> str_includes msg ''quota''
           then newMCPError RATE_LIMITED errMessage True dets
         else if str_includes msg ''auth'' \<or> str_includes msg ''unauthorized''
                 \<or> str_includes msg ''api key''
           then newMCPError AUTH_FAILED errMessage False dets
         else if str_includes msg ''store'' \<and> str_includes msg ''not found''
           then newMCPError STORE_NOT_FOUND errMessage False dets
         else if str_includes msg ''network'' \<or> str_includes msg ''timeout''
                 \<or> str_includes msg ''econnrefused'' \<or> str_includes msg ''enotfound''
           then newMCPError NETWORK_ERROR errMessage True dets
         else newMCPError API_ERROR errMessage True dets)"

fun parseGeminiError :: "thrown \<Rightarrow> MCPError" where
  "parseGeminiError (ThrownMCP e) = e"
| "parseGeminiError (ThrownError errName errMessage st) = parseErrorObject errName errMessage"
| "parseGeminiError (ThrownString s) = newMCPError UNKNOWN_ERROR s False None"
| "parseGeminiError (ThrownObject st) =
     newMCPError UNKNOWN_ERROR ''Unknown error occurred'' False None"
| "parseGeminiError ThrownUndefined =
     newMCPError UNKNOWN_ERROR ''Unknown error occurred'' False None"
| "parseGeminiError ThrownOther =
     newMCPError UNKNOWN_ERROR ''Unknown error occurred'' False None"

text \<open>\<open>handleErrors\<close>: run the body; a failure is rethrown in the standard form.\<close>

definition handleErrors :: "('s \<Rightarrow> (thrown + 'a) \<times> 's) \<Rightarrow> 's \<Rightarrow> (thrown + 'a) \<times> 's" where
  "handleErrors fn s =
     (case fn s of
        (Inl error, s1) \<Rightarrow> (Inl (ThrownMCP (parseGeminiError error)), s1)
      | (Inr v, s1) \<Rightarrow> (Inr v, s1))"


section \<open>Gemini client (src/lib/gemini-client.ts)\<close>

subsection \<open>Data\<close>

record FileSearchStore =
  name :: string
  displayName :: "string option"
  createTime :: "string option"
  updateTime :: "string option"

record DocumentMetadata =
  title :: "string option"
  authors :: "string list option"
  year :: "int option"
  doi :: "string option"
  tags :: "string list option"
  source_url :: "string option"

text \<open>A file as the file manager of the SDK reports it (the fields the client reads).\<close>

record RemoteFile =
  fileId :: string
  fileDisplayName :: "string option"
  uri :: string
  mimeType :: string
  sizeBytes :: string
  fileCreateTime :: string

text \<open>\<open>size_bytes\<close> is \<open>None\<close> where \<open>parseInt\<close> gives \<open>NaN\<close>.\<close>

record Document =
  doc_id :: string
  store_id :: string
  file_name :: string
  file_uri :: string
  mime_type :: string
  size_bytes :: "int option"
  created_at :: string
  metadata :: DocumentMetadata
  hash :: string
  dedupe_key :: string

record DocumentPage =
  documents :: "Document list"
  totalCount :: nat

text \<open>
  The part of a \<open>fetch\<close> response the client reads: \<open>body\<close> is what \<open>json()\<close> (or
  \<open>arrayBuffer()\<close>) resolves to, or the value it rejects with.
\<close>

record 'a Response =
  status :: nat
  statusText :: string
  contentType :: "string option"
  bodyText :: string
  body :: "thrown + 'a"

definition ok :: "'a Response \<Rightarrow> bool" where
  "ok response = (200 \<le> status response \<and> status response \<le> 299)"

subsection \<open>The world outside the client\<close>

text \<open>
  The remote service, the local file system and the library functions of the platform
  are parameters of the model: operations on a state \<open>'w\<close> of the outside world.
  A remote operation returns what the awaited call produced (\<open>Inl\<close> when it rejects)
  and the new state of the world.
\<close>

record 'w Platform =
  fetchListStores :: "nat \<Rightarrow> 'w \<Rightarrow> (thrown + FileSearchStore list option Response) \<times> 'w"
  fetchCreateStore :: "string option \<Rightarrow> 'w \<Rightarrow> (thrown + FileSearchStore Response) \<times> 'w"
  fetchGetStore :: "string \<Rightarrow> 'w \<Rightarrow> (thrown + unit Response) \<times> 'w"
  fetchUrl :: "string \<Rightarrow> 'w \<Rightarrow> (thrown + string Response) \<times> 'w"
  uploadFile :: "string \<Rightarrow> string \<Rightarrow> string \<Rightarrow> 'w \<Rightarrow> (thrown + RemoteFile) \<times> 'w"
  listFiles :: "'w \<Rightarrow> (thrown + RemoteFile list option) \<times> 'w"
  fsAccess :: "string \<Rightarrow> 'w \<Rightarrow> bool"
  fsReadFile :: "string \<Rightarrow> 'w \<Rightarrow> thrown + string"
  fsStatSize :: "string \<Rightarrow> 'w \<Rightarrow> thrown + nat"
  fsUnlink :: "string \<Rightarrow> 'w \<Rightarrow> 'w"
  fsMkdtemp :: "string \<Rightarrow> 'w \<Rightarrow> (thrown + string) \<times> 'w"
  fsWriteFile :: "string \<Rightarrow> string \<Rightarrow> 'w \<Rightarrow> (thrown + unit) \<times> 'w"
  sha256hex :: "string \<Rightarrow> string"
  basename :: "string \<Rightarrow> string"
  extname :: "string \<Rightarrow> string"
  pathJoin :: "string \<Rightarrow> string \<Rightarrow> string"
  urlPathname :: "string \<Rightarrow> thrown + string"
  parseInt :: "string \<Rightarrow> int option"
  dateNow :: "'w \<Rightarrow> nat \<times> 'w"
  nowISO :: "'w \<Rightarrow> string \<times> 'w"

text \<open>The requests sent to the remote service, as the client issues them.\<close>

datatype Request =
    ListStores nat
  | CreateStore "string option"
  | GetStore string
  | FetchUrl string
  | UploadFile string
  | ListFiles

text \<open>
  The client object: its fields \<open>storeId\<close> and \<open>storeName\<close> (\<open>None\<close> is
  \<open>null\<close>), the world it talks to, and the log of the requests it has sent so far.
\<close>

record 'w Client =
  storeId :: "string option"
  storeName :: "string option"
  world :: 'w
  requests :: "Request list"

type_synonym ('a, 'w) action = "'w Client \<Rightarrow> (thrown + 'a) \<times> 'w Client"

definition resolve :: "'a \<Rightarrow> ('a, 'w) action" where
  "resolve v = (\<lambda>c. (Inr v, c))"

definition reject :: "thrown \<Rightarrow> ('a, 'w) action" where
  "reject e = (\<lambda>c. (Inl e, c))"

text \<open>\<open>await\<close> one action and go on with its value; a rejection ends the sequence.\<close>

definition andThen :: "('a, 'w) action \<Rightarrow> ('a \<Rightarrow> ('b, 'w) action) \<Rightarrow> ('b, 'w) action" where
  "andThen m k = (\<lambda>c. case m c of (Inl e, c1) \<Rightarrow> (Inl e, c1) | (Inr v, c1) \<Rightarrow> k v c1)"

text \<open>A call of the remote service: the request is logged and the world moves on.\<close>

definition remote :: "Request \<Rightarrow> ('w \<Rightarrow> (thrown + 'a) \<times> 'w) \<Rightarrow> ('a, 'w) action" where
  "remote rq operation =
     (\<lambda>c. case operation (world c) of
             (r, w1) \<Rightarrow> (r, c\<lparr>world := w1, requests := requests c @ [rq]\<rparr>))"

text \<open>A call of the local platform (file system, clock): nothing is logged.\<close>

definition localCall :: "('w \<Rightarrow> (thrown + 'a) \<times> 'w) \<Rightarrow> ('a, 'w) action" where
  "localCall operation =
     (\<lambda>c. case operation (world c) of (r, w1) \<Rightarrow> (r, c\<lparr>world := w1\<rparr>))"

definition awaitBody :: "'a Response \<Rightarrow> ('a, 'w) action" where
  "awaitBody response = (\<lambda>c. (body response, c))"

definition withRetry :: "('a, 'w) action \<Rightarrow> 'w Client RetryOptions \<Rightarrow> ('a, 'w) action" where
  "withRetry fn options =
     (\<lambda>c. let run = retryWithBackoff fn options c in (settled run, after run))"

subsection \<open>JavaScript values\<close>

text \<open>\<open>!x\<close> for an optional string: \<open>null\<close>, \<open>undefined\<close> and the empty string are
  falsy.\<close>

definition falsy :: "string option \<Rightarrow> bool" where
  "falsy x = (case x of None \<Rightarrow> True | Some s \<Rightarrow> s = [])"

text \<open>\<open>x || d\<close> for an optional string and for a string.\<close>

definition optOr :: "string option \<Rightarrow> string \<Rightarrow> string" where
  "optOr x d = (case x of None \<Rightarrow> d | Some s \<Rightarrow> if s = [] then d else s)"

definition strOr :: "string \<Rightarrow> string \<Rightarrow> string" where
  "strOr s d = (if s = [] then d else s)"

text \<open>A natural number in a template literal: its decimal digits.\<close>

fun showNat :: "nat \<Rightarrow> string" where
  "showNat n =
     (if n < 10 then [char_of (48 + n)]
      else showNat (n div 10) @ [char_of (48 + n mod 10)])"

declare showNat.simps [simp del]

text \<open>\<open>Array.prototype.slice(start, stop)\<close> on integers: a negative index counts from
  the end, and both are clamped to the array.\<close>

definition jsSlice :: "'a list \<Rightarrow> int \<Rightarrow> int \<Rightarrow> 'a list" where
  "jsSlice xs start stop =
     (let len = int (length xs);
          k = (if start < 0 then max (len + start) 0 else min start len);
          final = (if stop < 0 then max (len + stop) 0 else min stop len)
      in take (nat (final - k)) (drop (nat k) xs))"

text \<open>\<open>JSON.stringify\<close> of a string: quoted, with the quote, the backslash and the
  control characters escaped.\<close>

definition hexDigit :: "nat \<Rightarrow> char" where
  "hexDigit d = (if d < 10 then char_of (48 + d) else char_of (87 + d))"

definition jsonEscape :: "char \<Rightarrow> string" where
  "jsonEscape c =
     (let n = (of_char c :: nat)
      in if n = 34 then [CHR 0x5C, CHR 0x22]
         else if n = 92 then [CHR 0x5C, CHR 0x5C]
         else if n = 8 then [CHR 0x5C, CHR ''b'']
         else if n = 12 then [CHR 0x5C, CHR ''f'']
         else if n = 10 then [CHR 0x5C, CHR ''n'']
         else if n = 13 then [CHR 0x5C, CHR ''r'']
         else if n = 9 then [CHR 0x5C, CHR ''t'']
         else if n < 32 then [CHR 0x5C, CHR ''u'', CHR ''0'', CHR ''0'',
                              hexDigit (n div 16), hexDigit (n mod 16)]
         else [c])"

definition jsonString :: "string \<Rightarrow> string" where
  "jsonString s = [CHR 0x22] @ concat (map jsonEscape s) @ [CHR 0x22]"

text \<open>One member of a JSON object; a property whose value is \<open>undefined\<close> is left
  out.\<close>

definition jsonMember :: "string \<Rightarrow> string option \<Rightarrow> string list" where
  "jsonMember k v = (case v of None \<Rightarrow> [] | Some s \<Rightarrow> [jsonString k @ '':'' @ jsonString s])"

fun joinComma :: "string list \<Rightarrow> string" where
  "joinComma [] = []"
| "joinComma [x] = x"
| "joinComma (x # y # ys) = x @ '','' @ joinComma (y # ys)"

text \<open>\<open>JSON.stringify({title: metadata.title, doi: metadata.doi})\<close>\<close>

definition stringifyTitleDoi :: "string option \<Rightarrow> string option \<Rightarrow> string" where
  "stringifyTitleDoi t d =
     ''{'' @ joinComma (jsonMember ''title'' t @ jsonMember ''doi'' d) @ ''}''"

subsection \<open>Deduplication key (lines 272-296)\<close>

definition calculateFileHash :: "'w Platform \<Rightarrow> string \<Rightarrow> (string, 'w) action" where
  "calculateFileHash pf filePath =
     (\<lambda>c. case fsReadFile pf filePath (world c) of
             Inl e \<Rightarrow> (Inl e, c)
           | Inr content \<Rightarrow> (Inr (sha256hex pf content), c))"

definition generateDedupeKey ::
    "(string \<Rightarrow> string) \<Rightarrow> string \<Rightarrow> DocumentMetadata option \<Rightarrow> string" where
  "generateDedupeKey digest h md =
     (let metaStr = (case md of
                       Some m \<Rightarrow> stringifyTitleDoi (title m) (doi m)
                     | None \<Rightarrow> [])
      in digest (h @ metaStr))"

subsection \<open>File stores (lines 589-798)\<close>

definition apiError :: "string \<Rightarrow> bool \<Rightarrow> thrown" where
  "apiError msg flag = ThrownMCP (newMCPError API_ERROR msg flag None)"

definition listFileStores :: "'w Platform \<Rightarrow> nat \<Rightarrow> (FileSearchStore list, 'w) action" where
  "listFileStores pf pageSize =
     handleErrors
       (andThen (remote (ListStores pageSize) (fetchListStores pf pageSize)) (\<lambda>response.
          if \<not> ok response then
            reject (apiError
              (''Failed to list File Stores: '' @ showNat (status response) @ '' ''
                 @ statusText response @ '' - '' @ bodyText response) True)
          else
            andThen (awaitBody response) (\<lambda>fileSearchStores.
              resolve (case fileSearchStores of None \<Rightarrow> [] | Some stores \<Rightarrow> stores))))"

text \<open>\<open>stores.find((store) => store.displayName === displayName)\<close>\<close>

definition findByDisplayName :: "string \<Rightarrow> FileSearchStore list \<Rightarrow> FileSearchStore option" where
  "findByDisplayName dn stores = find (\<lambda>store. displayName store = Some dn) stores"

definition alreadyExistsMessage :: "string \<Rightarrow> string \<Rightarrow> string" where
  "alreadyExistsMessage dn existingId =
     ''A File Store with display name '' @ [CHR 0x22] @ dn @ [CHR 0x22]
       @ '' already exists (ID: '' @ existingId
       @ ''). Use a different name or use the existing store.''"

definition createFileStore :: "'w Platform \<Rightarrow> string option \<Rightarrow> (string, 'w) action" where
  "createFileStore pf dn =
     handleErrors
       (andThen
          (if \<not> falsy dn then
             andThen (listFileStores pf 20) (\<lambda>stores.
               case findByDisplayName (optOr dn []) stores of
                 Some existingStore \<Rightarrow>
                   reject (apiError (alreadyExistsMessage (optOr dn []) (name existingStore)) False)
               | None \<Rightarrow> resolve ())
           else resolve ())
          (\<lambda>checked.
             andThen
               (remote (CreateStore (if \<not> falsy dn then dn else None))
                  (fetchCreateStore pf (if \<not> falsy dn then dn else None)))
               (\<lambda>response.
                  if \<not> ok response then
                    reject (apiError
                      (''Failed to create File Store: '' @ showNat (status response) @ '' ''
                         @ statusText response @ '' - '' @ bodyText response) False)
                  else
                    andThen (awaitBody response) (\<lambda>data.
                      (\<lambda>c. (Inr (name data), c\<lparr>storeId := Some (name data)\<rparr>))))))"

definition resolveStoreByDisplayName :: "'w Platform \<Rightarrow> string \<Rightarrow> (string, 'w) action" where
  "resolveStoreByDisplayName pf dn =
     handleErrors
       (andThen (listFileStores pf 20) (\<lambda>stores.
          case findByDisplayName dn stores of
            Some matchingStore \<Rightarrow> resolve (name matchingStore)
          | None \<Rightarrow> createFileStore pf (Some dn)))"

definition checkFileStoreExists :: "'w Platform \<Rightarrow> string \<Rightarrow> (bool, 'w) action" where
  "checkFileStoreExists pf sid =
     handleErrors
       (andThen (remote (GetStore sid) (fetchGetStore pf sid)) (\<lambda>response.
          if status response = 404 then resolve False
          else if \<not> ok response then
            reject (apiError
              (''Failed to check File Store: '' @ showNat (status response) @ '' ''
                 @ statusText response @ '' - '' @ bodyText response) True)
          else resolve True))"

definition storeNameNotConfigured :: thrown where
  "storeNameNotConfigured =
     ThrownMCP (newMCPError STORE_NOT_FOUND
       ''File Store name is not configured. Set GEMINI_FILESTORE_NAME environment variable.''
       False None)"

text \<open>
  The block \<open>if (!this.storeId) { ... }\<close> that opens both \<open>uploadDocument\<close> and
  \<open>ensureFileStore\<close>: when no id is held, the configured name is resolved and the id
  is stored. The action yields \<open>this.storeId\<close> as it stands after the block.
\<close>

definition resolveStoreIdIfUnset :: "'w Platform \<Rightarrow> (string, 'w) action" where
  "resolveStoreIdIfUnset pf =
     (\<lambda>c. if falsy (storeId c) then
             (if falsy (storeName c) then reject storeNameNotConfigured c
              else
                andThen (resolveStoreByDisplayName pf (optOr (storeName c) []))
                  (\<lambda>sid. (\<lambda>c1. (Inr sid, c1\<lparr>storeId := Some sid\<rparr>))) c)
           else resolve (optOr (storeId c) []) c)"

definition ensureFileStore :: "'w Platform \<Rightarrow> (unit, 'w) action" where
  "ensureFileStore pf =
     andThen (resolveStoreIdIfUnset pf) (\<lambda>sid.
       andThen (checkFileStoreExists pf sid) (\<lambda>exists.
         if \<not> exists then
           reject (ThrownMCP (newMCPError STORE_NOT_FOUND
             (''File Store not found: '' @ sid
                @ ''. This should not happen if resolveStoreByDisplayName worked correctly.'')
             False None))
         else resolve ()))"

definition getStoreId :: "'w Client \<Rightarrow> string option" where
  "getStoreId c = storeId c"

definition setStoreId :: "string \<Rightarrow> 'w Client \<Rightarrow> 'w Client" where
  "setStoreId sid c = c\<lparr>storeId := Some sid\<rparr>"

subsection \<open>Upload (lines 70-270)\<close>

text \<open>The two lookup tables, as chains of tests on the key.\<close>

definition getExtensionFromMimeType :: "string option \<Rightarrow> string" where
  "getExtensionFromMimeType mt =
     (if falsy mt then ''bin''
      else if mt = Some ''application/pdf'' then ''pdf''
      else if mt = Some ''application/vnd.openxmlformats-officedocument.wordprocessingml.document''
        then ''docx''
      else if mt = Some ''application/msword'' then ''doc''
      else if mt = Some ''text/plain'' then ''txt''
      else if mt = Some ''text/markdown'' then ''md''
      else if mt = Some ''application/json'' then ''json''
      else ''bin'')"

definition getMimeType :: "'w Platform \<Rightarrow> string \<Rightarrow> string" where
  "getMimeType pf fileName =
     (let ext = toLowerCase (extname pf fileName)
      in if ext = ''.pdf'' then ''application/pdf''
         else if ext = ''.docx''
           then ''application/vnd.openxmlformats-officedocument.wordprocessingml.document''
         else if ext = ''.doc'' then ''application/msword''
         else if ext = ''.txt'' then ''text/plain''
         else if ext = ''.md'' then ''text/markdown''
         else if ext = ''.json'' then ''application/json''
         else ''application/octet-stream'')"

definition extractFileName :: "'w Platform \<Rightarrow> string \<Rightarrow> string option \<Rightarrow> (string, 'w) action" where
  "extractFileName pf url ct =
     (\<lambda>c. case urlPathname pf url of
             Inl e \<Rightarrow> (Inl e, c)
           | Inr urlPath \<Rightarrow>
               (let fileNameFromUrl = basename pf urlPath
                in if fileNameFromUrl \<noteq> [] \<and> fileNameFromUrl \<noteq> ''/''
                   then (Inr fileNameFromUrl, c)
                   else (case dateNow pf (world c) of
                           (now, w1) \<Rightarrow>
                             (Inr (''download_'' @ showNat now @ ''.''
                                     @ getExtensionFromMimeType ct),
                              c\<lparr>world := w1\<rparr>))))"

definition downloadFile :: "'w Platform \<Rightarrow> string \<Rightarrow> (string, 'w) action" where
  "downloadFile pf url =
     handleErrors
       (andThen (remote (FetchUrl url) (fetchUrl pf url)) (\<lambda>response.
          if \<not> ok response then
            reject (ThrownMCP (newMCPError DOWNLOAD_FAILED
              (''Failed to download file: '' @ showNat (status response) @ '' ''
                 @ statusText response) False None))
          else
            andThen (localCall (fsMkdtemp pf (pathJoin pf ''/tmp'' ''mcp-gemini-''))) (\<lambda>tempDir.
            andThen (extractFileName pf url (contentType response)) (\<lambda>fileName.
            andThen (awaitBody response) (\<lambda>buffer.
            andThen (localCall (fsWriteFile pf (pathJoin pf tempDir fileName) buffer)) (\<lambda>written.
              resolve (pathJoin pf tempDir fileName)))))))"

definition ensureLocalFile :: "'w Platform \<Rightarrow> string \<Rightarrow> (string, 'w) action" where
  "ensureLocalFile pf source =
     (if startsWith source ''http://'' \<or> startsWith source ''https://''
      then downloadFile pf source
      else (\<lambda>c. if fsAccess pf source (world c) then (Inr source, c)
                 else (Inl (ThrownMCP (newMCPError FILE_NOT_FOUND
                              (''File not found: '' @ source) False None)), c)))"

text \<open>The options of the upload: three attempts and an observer that only logs.\<close>

definition uploadRetryOptions :: "'w Client RetryOptions" where
  "uploadRetryOptions =
     \<lparr>maxAttempts = Some 3, delays = None, onRetry = Some (\<lambda>attempt error c. (Inr (), c))\<rparr>"

definition uploadDisplayName :: "DocumentMetadata option \<Rightarrow> string \<Rightarrow> string" where
  "uploadDisplayName md fileName =
     (case md of None \<Rightarrow> fileName | Some m \<Rightarrow> optOr (title m) fileName)"

definition emptyMetadata :: DocumentMetadata where
  "emptyMetadata =
     \<lparr>title = None, authors = None, year = None, doi = None, tags = None, source_url = None\<rparr>"

definition uploadDocument ::
    "'w Platform \<Rightarrow> string \<Rightarrow> DocumentMetadata option \<Rightarrow> (Document, 'w) action" where
  "uploadDocument pf source md =
     handleErrors
       (andThen (resolveStoreIdIfUnset pf) (\<lambda>sid.
        andThen (ensureLocalFile pf source) (\<lambda>localPath.
        andThen (calculateFileHash pf localPath) (\<lambda>contentHash.
        andThen (\<lambda>c. (fsStatSize pf localPath (world c), c)) (\<lambda>sizeBytes.
        andThen
          (withRetry
             (remote (UploadFile localPath)
                (uploadFile pf localPath (getMimeType pf (basename pf localPath))
                   (uploadDisplayName md (basename pf localPath))))
             uploadRetryOptions) (\<lambda>uploaded.
        andThen
          (\<lambda>c. (Inr (),
                 if startsWith source ''http'' then c\<lparr>world := fsUnlink pf localPath (world c)\<rparr>
                 else c)) (\<lambda>cleaned.
        andThen (localCall (\<lambda>w. case nowISO pf w of (now, w1) \<Rightarrow> (Inr now, w1))) (\<lambda>now.
        (\<lambda>c. (Inr \<lparr>doc_id = fileId uploaded,
                    store_id = optOr (storeId c) [],
                    file_name = basename pf localPath,
                    file_uri = uri uploaded,
                    mime_type = strOr (mimeType uploaded) (getMimeType pf (basename pf localPath)),
                    size_bytes = Some (int sizeBytes),
                    created_at = now,
                    metadata = (case md of None \<Rightarrow> emptyMetadata | Some m \<Rightarrow> m),
                    hash = contentHash,
                    dedupe_key = generateDedupeKey (sha256hex pf) contentHash md\<rparr>, c))))))))))"

subsection \<open>Listing documents (lines 459-533)\<close>

definition toDocument :: "'w Platform \<Rightarrow> RemoteFile \<Rightarrow> (Document, 'w) action" where
  "toDocument pf file =
     (\<lambda>c. case (if fileCreateTime file \<noteq> [] then (fileCreateTime file, world c)
                else nowISO pf (world c)) of
             (created, w1) \<Rightarrow>
               (Inr \<lparr>doc_id = fileId file,
                     store_id = optOr (storeId c) ''unknown'',
                     file_name = optOr (fileDisplayName file) (basename pf (strOr (uri file) [])),
                     file_uri = uri file,
                     mime_type = strOr (mimeType file) ''application/octet-stream'',
                     size_bytes = (if sizeBytes file \<noteq> [] then parseInt pf (sizeBytes file)
                                   else Some 0),
                     created_at = created,
                     metadata = emptyMetadata,
                     hash = [],
                     dedupe_key = []\<rparr>,
                c\<lparr>world := w1\<rparr>))"

text \<open>The loop \<open>for (const file of files)\<close> that fills \<open>allDocuments\<close>; the
  filters are read by no statement of the loop and are not a parameter of the model.\<close>

fun toDocuments :: "'w Platform \<Rightarrow> RemoteFile list \<Rightarrow> Document list \<Rightarrow> (Document list, 'w) action" where
  "toDocuments pf [] allDocuments = resolve allDocuments"
| "toDocuments pf (file # files) allDocuments =
     andThen (toDocument pf file) (\<lambda>doc. toDocuments pf files (allDocuments @ [doc]))"

definition listDocuments :: "'w Platform \<Rightarrow> int \<Rightarrow> int \<Rightarrow> (DocumentPage, 'w) action" where
  "listDocuments pf page pageSize =
     handleErrors
       (andThen (withRetry (remote ListFiles (listFiles pf)) defaultRetryOptions)
          (\<lambda>listFilesResponse.
        andThen (toDocuments pf (case listFilesResponse of None \<Rightarrow> [] | Some files \<Rightarrow> files) [])
          (\<lambda>allDocuments.
             resolve \<lparr>documents = jsSlice allDocuments ((page - 1) * pageSize)
                                    ((page - 1) * pageSize + pageSize),
                      totalCount = length allDocuments\<rparr>)))"

subsection \<open>The add_document tool (src/tools/add-document.ts)\<close>

text \<open>The handler, from the validated input on: the source and the optional metadata.\<close>

record AddDocumentOutput =
  success :: bool
  out_doc_id :: string
  out_store_id :: string
  out_file_name :: string
  out_hash :: string
  out_message :: string

definition addDocument ::
    "'w Platform \<Rightarrow> string \<Rightarrow> DocumentMetadata option \<Rightarrow> (AddDocumentOutput, 'w) action" where
  "addDocument pf source md =
     handleErrors
       (andThen (uploadDocument pf source md) (\<lambda>document.
          resolve \<lparr>success = True,
                   out_doc_id = doc_id document,
                   out_store_id = store_id document,
                   out_file_name = file_name document,
                   out_hash = hash document,
                   out_message = ''Document uploaded successfully: '' @ file_name document\<rparr>))"

subsection \<open>Sequences of operations\<close>

text \<open>
  The operations of the client that read the field \<open>storeId\<close>, and the tool on top of
  the upload; search, passages and deletion never read it. \<open>perform\<close> runs one of
  them and keeps the client it leaves; \<open>performAll\<close> runs a sequence, one after the
  other.
\<close>

datatype Operation =
    UploadDocumentOp string "DocumentMetadata option"
  | AddDocumentOp string "DocumentMetadata option"
  | EnsureFileStoreOp
  | ListDocumentsOp int int

fun perform :: "'w Platform \<Rightarrow> Operation \<Rightarrow> 'w Client \<Rightarrow> 'w Client" where
  "perform pf (UploadDocumentOp source md) c = snd (uploadDocument pf source md c)"
| "perform pf (AddDocumentOp source md) c = snd (addDocument pf source md c)"
| "perform pf EnsureFileStoreOp c = snd (ensureFileStore pf c)"
| "perform pf (ListDocumentsOp page pageSize) c = snd (listDocuments pf page pageSize c)"







section \<open>Concrete inputs\<close>

text \<open>An error that is flagged non-retryable but carries a code of the retryable set,
  as \<open>createFileStore\<close> and \<open>downloadFile\<close> construct them.\<close>

definition flaggedFalseApiError :: MCPError where
  "flaggedFalseApiError = newMCPError API_ERROR ''Failed to create File Store'' False None"

definition notFoundError :: MCPError where
  "notFoundError = newMCPError FILE_NOT_FOUND ''Not found'' False None"

text \<open>A unit of work that fails with the same value on every call; its state counts
  the calls.\<close>

definition alwaysFails :: "thrown \<Rightarrow> nat \<Rightarrow> (thrown + unit) \<times> nat" where
  "alwaysFails e = (\<lambda>k. (Inl e, Suc k))"

definition threeAttempts :: "nat RetryOptions" where
  "threeAttempts = \<lparr>maxAttempts = Some 3, delays = None, onRetry = None\<rparr>"

text \<open>
  A small world to run the client in: the stores and the files the remote service holds,
  the local files by path, and a clock. The service answers every request with the
  status 200, lists at most the page size, and names a new store after the number of
  stores it holds.
\<close>

record TestWorld =
  remoteStores :: "FileSearchStore list"
  remoteFiles :: "RemoteFile list"
  localFiles :: "(string \<times> string) list"
  clock :: nat

definition okResponse :: "'a \<Rightarrow> 'a Response" where
  "okResponse v =
     \<lparr>status = 200, statusText = ''OK'', contentType = Some ''application/json'',
      bodyText = [], body = Inr v\<rparr>"

definition noSuchFile :: thrown where
  "noSuchFile = ThrownError ''Error'' ''ENOENT: no such file or directory'' None"

definition testBasename :: "string \<Rightarrow> string" where
  "testBasename filePath = rev (takeWhile (\<lambda>ch. ch \<noteq> CHR ''/'') (rev filePath))"

definition testExtname :: "string \<Rightarrow> string" where
  "testExtname filePath =
     (if CHR ''.'' \<in> set (testBasename filePath)
      then CHR ''.'' # rev (takeWhile (\<lambda>ch. ch \<noteq> CHR ''.'') (rev (testBasename filePath)))
      else [])"

text \<open>A stand-in for the digest that is injective.\<close>

definition testDigest :: "string \<Rightarrow> string" where
  "testDigest content = ''sha256:'' @ content"

definition testPlatform :: "TestWorld Platform" where
  "testPlatform =
     \<lparr>fetchListStores = (\<lambda>pageSize w. (Inr (okResponse (Some (take pageSize (remoteStores w)))), w)),
      fetchCreateStore = (\<lambda>dn w.
         (Inr (okResponse
            \<lparr>name = ''fileSearchStores/'' @ showNat (length (remoteStores w)),
             displayName = dn, createTime = None, updateTime = None\<rparr>),
          w\<lparr>remoteStores := remoteStores w @
               [\<lparr>name = ''fileSearchStores/'' @ showNat (length (remoteStores w)),
                 displayName = dn, createTime = None, updateTime = None\<rparr>]\<rparr>)),
      fetchGetStore = (\<lambda>sid w.
         (Inr ((okResponse ())\<lparr>status := (if sid \<in> set (map name (remoteStores w))
                                            then 200 else 404)\<rparr>), w)),
      fetchUrl = (\<lambda>url w. (Inl (ThrownError ''TypeError'' ''fetch failed'' None), w)),
      uploadFile = (\<lambda>filePath mt dn w.
         (Inr \<lparr>fileId = ''files/'' @ showNat (length (remoteFiles w)),
               fileDisplayName = Some dn, uri = ''https://files.test/'' @ dn, mimeType = mt,
               sizeBytes = ''0'', fileCreateTime = ''2025-01-01T00:00:00.000Z''\<rparr>,
          w\<lparr>remoteFiles := remoteFiles w @
               [\<lparr>fileId = ''files/'' @ showNat (length (remoteFiles w)),
                 fileDisplayName = Some dn, uri = ''https://files.test/'' @ dn, mimeType = mt,
                 sizeBytes = ''0'', fileCreateTime = ''2025-01-01T00:00:00.000Z''\<rparr>]\<rparr>)),
      listFiles = (\<lambda>w. (Inr (Some (remoteFiles w)), w)),
      fsAccess = (\<lambda>filePath w. map_of (localFiles w) filePath \<noteq> None),
      fsReadFile = (\<lambda>filePath w.
         case map_of (localFiles w) filePath of None \<Rightarrow> Inl noSuchFile
         | Some content \<Rightarrow> Inr content),
      fsStatSize = (\<lambda>filePath w.
         case map_of (localFiles w) filePath of None \<Rightarrow> Inl noSuchFile
         | Some content \<Rightarrow> Inr (length content)),
      fsUnlink = (\<lambda>filePath w.
         w\<lparr>localFiles := filter (\<lambda>entry. fst entry \<noteq> filePath) (localFiles w)\<rparr>),
      fsMkdtemp = (\<lambda>prefix w. (Inr (prefix @ ''a1b2c3''), w)),
      fsWriteFile = (\<lambda>filePath content w.
         (Inr (), w\<lparr>localFiles := (filePath, content) # localFiles w\<rparr>)),
      sha256hex = testDigest,
      basename = testBasename,
      extname = testExtname,
      pathJoin = (\<lambda>dir filePath. dir @ ''/'' @ filePath),
      urlPathname = (\<lambda>url. Inr url),
      parseInt = (\<lambda>digits. if digits = ''0'' then Some 0 else None),
      dateNow = (\<lambda>w. (clock w, w\<lparr>clock := Suc (clock w)\<rparr>)),
      nowISO = (\<lambda>w. (''2025-01-01T00:00:00.000Z'', w))\<rparr>"

definition papersStore :: FileSearchStore where
  "papersStore =
     \<lparr>name = ''fileSearchStores/abc123'', displayName = Some ''papers'',
      createTime = None, updateTime = None\<rparr>"

text \<open>A fresh client configured with the store name "papers": no id held yet.\<close>

definition freshClient :: "TestWorld \<Rightarrow> TestWorld Client" where
  "freshClient w = \<lparr>storeId = None, storeName = Some ''papers'', world = w, requests = []\<rparr>"

definition emptyWorld :: TestWorld where
  "emptyWorld = \<lparr>remoteStores = [], remoteFiles = [], localFiles = [], clock = 0\<rparr>"

definition papersWorld :: TestWorld where
  "papersWorld =
     \<lparr>remoteStores = [papersStore], remoteFiles = [],
      localFiles = [(''/docs/a.pdf'', ''%PDF-1.7 first''), (''/docs/b.txt'', ''second'')],
      clock = 0\<rparr>"

text \<open>A session: a first upload, which resolves the configured name, and the
  operations that follow it.\<close>

definition resolvedClient :: "TestWorld Client" where
  "resolvedClient = perform testPlatform (UploadDocumentOp ''/docs/a.pdf'' None) (freshClient papersWorld)"


text \<open>Two metadata values that agree on the title and the DOI and differ elsewhere.\<close>

definition taggedFirst :: DocumentMetadata where
  "taggedFirst = \<lparr>title = Some ''A'', authors = None, year = Some 2020, doi = Some ''X'',
                   tags = Some [''t1''], source_url = None\<rparr>"

definition taggedSecond :: DocumentMetadata where
  "taggedSecond = \<lparr>title = Some ''A'', authors = Some [''N. N.''], year = None, doi = Some ''X'',
                    tags = Some [''t2''], source_url = None\<rparr>"

text \<open>A world whose only store has the empty display name.\<close>

definition emptyNameWorld :: TestWorld where
  "emptyNameWorld = papersWorld\<lparr>remoteStores := [papersStore\<lparr>displayName := Some []\<rparr>]\<rparr>"

text \<open>A client whose service holds two files, the second with most fields empty.\<close>

definition fileA :: RemoteFile where
  "fileA = \<lparr>fileId = ''files/a'', fileDisplayName = Some ''a.pdf'', uri = ''https://files.test/a'',
            mimeType = ''application/pdf'', sizeBytes = ''0'',
            fileCreateTime = ''2025-01-01T00:00:00.000Z''\<rparr>"

definition fileB :: RemoteFile where
  "fileB = \<lparr>fileId = ''files/b'', fileDisplayName = None, uri = ''https://files.test/b.txt'',
            mimeType = [], sizeBytes = [], fileCreateTime = []\<rparr>"

definition libraryClient :: "TestWorld Client" where
  "libraryClient = freshClient (papersWorld\<lparr>remoteFiles := [fileA, fileB]\<rparr>)"

section \<open>Properties of the error handling framework\<close>

lemma retryLoop_first_not_retryable:
  assumes "fn s = (Inl e, s1)" and "\<not> isRetryable e" and "attempt \<le> maxA"
  shows "retryLoop fn maxA ds cb attempt lastError s n ws =
           \<lparr>settled = Inl e, after = s1, invocations = Suc n, sleeps = ws\<rparr>"
  using assms by (simp add: retryLoop.simps)

text \<open>
  C1 (amended). For every unit of work whose first failure is not retryable in the sense
  of \<open>isRetryable\<close> (an \<open>MCPError\<close> whose flag is false and whose code is none of
  RATE_LIMITED, NETWORK_ERROR, INDEXING_TIMEOUT, API_ERROR, or any other value without a
  retryable HTTP status), and every \<open>maxAttempts\<close> of at least 1 (or the default),
  \<open>retryWithBackoff\<close> calls the unit of work exactly once, does not sleep, and
  propagates that failure unchanged.
\<close>

theorem C1_not_retryable_called_once:
  assumes first: "fn s = (Inl e, s1)"
    and notRetryable: "\<not> isRetryable e"
    and positive: "(case maxAttempts opts of None \<Rightarrow> True | Some m \<Rightarrow> 1 \<le> m)"
  shows "retryWithBackoff fn opts s =
           \<lparr>settled = Inl e, after = s1, invocations = 1, sleeps = []\<rparr>"
proof -
  have "(1::int) \<le> (case maxAttempts opts of None \<Rightarrow> 3 | Some m \<Rightarrow> m)"
    using positive by (cases "maxAttempts opts") simp_all
  then show ?thesis
    unfolding retryWithBackoff_def
    using retryLoop_first_not_retryable [where fn = fn and s = s, OF first notRetryable]
    by simp
qed

text \<open>C1, at a unit of work that always fails with FILE_NOT_FOUND, with five attempts
  allowed.\<close>

theorem C1_not_retryable_called_once_witness:
  "retryWithBackoff (alwaysFails (ThrownMCP notFoundError))
      (threeAttempts\<lparr>maxAttempts := Some 5\<rparr>) 0 =
     \<lparr>settled = Inl (ThrownMCP notFoundError), after = 1, invocations = 1, sleeps = []\<rparr>"
proof -
  have a: "alwaysFails (ThrownMCP notFoundError) 0 = (Inl (ThrownMCP notFoundError), 1)"
    by (simp add: alwaysFails_def)
  have b: "\<not> isRetryable (ThrownMCP notFoundError)"
    by (simp add: notFoundError_def newMCPError_def RETRYABLE_ERROR_CODES_def)
  have c: "(case maxAttempts (threeAttempts\<lparr>maxAttempts := Some 5\<rparr>) of
              None \<Rightarrow> True | Some m \<Rightarrow> 1 \<le> m)"
    by simp
  show ?thesis
    by (rule C1_not_retryable_called_once
          [where fn = "alwaysFails (ThrownMCP notFoundError)" and s = 0, OF a b c])
qed

text \<open>
  C1 as stated fails: an \<open>MCPError\<close> with \<open>retryable == false\<close> and the code API_ERROR
  is retried, because \<open>isRetryable\<close> also consults the set of retryable codes. With three
  attempts allowed the unit of work is called three times.
\<close>

theorem C1_flag_false_retried_counterexample:
  "retryable flaggedFalseApiError = False \<and>
   fst (alwaysFails (ThrownMCP flaggedFalseApiError) 0) = Inl (ThrownMCP flaggedFalseApiError) \<and>
   invocations
     (retryWithBackoff (alwaysFails (ThrownMCP flaggedFalseApiError)) threeAttempts 0) = 3 \<and>
   after (retryWithBackoff (alwaysFails (ThrownMCP flaggedFalseApiError)) threeAttempts 0) = 3"
  by (simp add: retryWithBackoff_def retryLoop.simps alwaysFails_def threeAttempts_def
        flaggedFalseApiError_def newMCPError_def RETRYABLE_ERROR_CODES_def callOnRetry_def)

text \<open>
  C2 (amended). For every unit of work that fails with a retryable value (in the sense of
  \<open>isRetryable\<close>) on every attempt, \<open>retryWithBackoff\<close> with \<open>maxAttempts = 3\<close> and
  no observer, or one that returns normally, calls the unit of work exactly three times
  and settles with exactly what the third call produced: the raw failure value, not a
  classified one.
\<close>

theorem C2_three_attempts_raw_failure:
  assumes fails: "\<forall>t. \<exists>e. fst (fn t) = Inl e \<and> isRetryable e"
    and observer: "\<forall>k e t. fst (callOnRetry (onRetry opts) k e t) = Inr ()"
    and three: "maxAttempts opts = Some 3"
  shows "invocations (retryWithBackoff fn opts s) = 3 \<and>
         (let (r1, s1) = fn s;
              (u1, t1) = callOnRetry (onRetry opts) 1 (projl r1) s1;
              (r2, s2) = fn t1;
              (u2, t2) = callOnRetry (onRetry opts) 2 (projl r2) s2
          in (settled (retryWithBackoff fn opts s), after (retryWithBackoff fn opts s))
               = fn t2)"
proof -
  obtain e1 s1 where f1: "fn s = (Inl e1, s1)" and r1: "isRetryable e1"
    using fails by (metis prod.collapse)
  obtain t1 where o1: "callOnRetry (onRetry opts) 1 e1 s1 = (Inr (), t1)"
    using observer by (metis prod.collapse)
  obtain e2 s2 where f2: "fn t1 = (Inl e2, s2)" and r2: "isRetryable e2"
    using fails by (metis prod.collapse)
  obtain t2 where o2: "callOnRetry (onRetry opts) 2 e2 s2 = (Inr (), t2)"
    using observer by (metis prod.collapse)
  obtain e3 s3 where f3: "fn t2 = (Inl e3, s3)"
    using fails by (metis prod.collapse)
  show ?thesis
    unfolding retryWithBackoff_def
    by (simp add: retryLoop.simps three f1 r1 o1 f2 r2 o2 f3)
qed

text \<open>C2, at a unit of work that always fails with the plain object \<open>{status: 503}\<close>.\<close>

theorem C2_three_attempts_raw_failure_witness:
  "invocations (retryWithBackoff (alwaysFails (ThrownObject (Some 503))) threeAttempts 0) = 3 \<and>
   settled (retryWithBackoff (alwaysFails (ThrownObject (Some 503))) threeAttempts 0)
     = Inl (ThrownObject (Some 503)) \<and>
   after (retryWithBackoff (alwaysFails (ThrownObject (Some 503))) threeAttempts 0) = 3"
proof -
  have fails: "\<forall>t. \<exists>e. fst (alwaysFails (ThrownObject (Some 503)) t) = Inl e \<and> isRetryable e"
    by (simp add: alwaysFails_def retryableStatus_def RETRYABLE_HTTP_STATUS_CODES_def)
  have observer: "\<forall>k e t. fst (callOnRetry (onRetry threeAttempts) k e t) = Inr ()"
    by (simp add: callOnRetry_def threeAttempts_def)
  have three: "maxAttempts threeAttempts = Some 3"
    by (simp add: threeAttempts_def)
  show ?thesis
    using C2_three_attempts_raw_failure [OF fails observer three, of 0]
    by (simp add: alwaysFails_def callOnRetry_def threeAttempts_def)
qed

text \<open>
  C2 as stated fails: \<open>retryWithBackoff\<close> rethrows what it caught. For a unit of work
  that always fails with the plain object \<open>{status: 503}\<close>, which is retryable, the
  caller receives that object and no \<open>MCPError\<close>.
\<close>

theorem C2_raw_not_classified_counterexample:
  "isRetryable (ThrownObject (Some 503)) \<and>
   invocations (retryWithBackoff (alwaysFails (ThrownObject (Some 503))) threeAttempts 0) = 3 \<and>
   settled (retryWithBackoff (alwaysFails (ThrownObject (Some 503))) threeAttempts 0)
     = Inl (ThrownObject (Some 503)) \<and>
   settled (retryWithBackoff (alwaysFails (ThrownObject (Some 503))) threeAttempts 0)
     \<noteq> Inl (ThrownMCP (parseGeminiError (ThrownObject (Some 503))))"
  by (simp add: retryWithBackoff_def retryLoop.simps alwaysFails_def threeAttempts_def
        callOnRetry_def retryableStatus_def RETRYABLE_HTTP_STATUS_CODES_def)

text \<open>
  C7 (amended). For every failure whose message contains "rate limit" or "quota"
  (case-insensitive) and none of "too large", "file size", "invalid file" and
  "unsupported", which are tested first, the classification is RATE_LIMITED with the
  retryable flag set and the message kept.
\<close>

theorem C7_rate_limit_after_file_errors:
  assumes limited: "str_includes (toLowerCase m) ''rate limit'' \<or> str_includes (toLowerCase m) ''quota''"
    and notSize: "\<not> str_includes (toLowerCase m) ''too large''"
                 "\<not> str_includes (toLowerCase m) ''file size''"
    and notType: "\<not> str_includes (toLowerCase m) ''invalid file''"
                 "\<not> str_includes (toLowerCase m) ''unsupported''"
  shows "code (parseGeminiError (ThrownError nm m st)) = RATE_LIMITED \<and>
         retryable (parseGeminiError (ThrownError nm m st)) = True \<and>
         message (parseGeminiError (ThrownError nm m st)) = m"
  using assms by (auto simp add: parseErrorObject_def newMCPError_def Let_def)

text \<open>C7, at the message "API Quota exceeded; Rate Limit reached".\<close>

theorem C7_rate_limit_after_file_errors_witness:
  "code (parseGeminiError (ThrownError ''Error'' ''API Quota exceeded; Rate Limit reached'' None))
     = RATE_LIMITED \<and>
   retryable (parseGeminiError (ThrownError ''Error'' ''API Quota exceeded; Rate Limit reached'' None))
     = True"
proof -
  have limited: "str_includes (toLowerCase ''API Quota exceeded; Rate Limit reached'') ''rate limit''
      \<or> str_includes (toLowerCase ''API Quota exceeded; Rate Limit reached'') ''quota''"
    by code_simp
  have s1: "\<not> str_includes (toLowerCase ''API Quota exceeded; Rate Limit reached'') ''too large''"
    by code_simp
  have s2: "\<not> str_includes (toLowerCase ''API Quota exceeded; Rate Limit reached'') ''file size''"
    by code_simp
  have t1: "\<not> str_includes (toLowerCase ''API Quota exceeded; Rate Limit reached'') ''invalid file''"
    by code_simp
  have t2: "\<not> str_includes (toLowerCase ''API Quota exceeded; Rate Limit reached'') ''unsupported''"
    by code_simp
  show ?thesis
    using C7_rate_limit_after_file_errors [OF limited s1 s2 t1 t2, of "''Error''" None]
    by simp
qed

text \<open>
  C7 as stated fails: a message that contains "quota" and also "too large" is FILE_TOO_LARGE
  and not retryable, because the file size test comes first.
\<close>

theorem C7_quota_too_large_counterexample:
  "str_includes (toLowerCase ''File too large: quota exceeded'') ''quota'' \<and>
   code (parseGeminiError (ThrownError ''Error'' ''File too large: quota exceeded'' None))
     = FILE_TOO_LARGE \<and>
   retryable (parseGeminiError (ThrownError ''Error'' ''File too large: quota exceeded'' None))
     = False"
  by code_simp

text \<open>
  C8. Classification is idempotent: an \<open>MCPError\<close> is returned as it is (same code,
  message, retryable flag and details), so classifying the result of a classification
  changes nothing, whatever the input.
\<close>

theorem C8_parseGeminiError_idempotent:
  "parseGeminiError (ThrownMCP e) = e \<and>
   parseGeminiError (ThrownMCP (parseGeminiError x)) = parseGeminiError x"
  by simp


section \<open>Properties of the deduplication key\<close>

text \<open>
  C4. Two files with the same bytes get the same content hash, and for every content and
  every two metadata values that agree on the title and the DOI the derived key is the
  same; changing only the authors, the year, the tags or the source URL never changes it.
\<close>

theorem C4_dedupe_key_canonical_fields:
  assumes sameTitle: "title m1 = title m2" and sameDoi: "doi m1 = doi m2"
    and first: "fsReadFile pf path1 (world c1) = Inr bytes"
    and second: "fsReadFile pf path2 (world c2) = Inr bytes"
  shows "fst (calculateFileHash pf path1 c1) = Inr (sha256hex pf bytes) \<and>
         fst (calculateFileHash pf path2 c2) = Inr (sha256hex pf bytes) \<and>
         generateDedupeKey (sha256hex pf) (sha256hex pf bytes) (Some m1)
           = generateDedupeKey (sha256hex pf) (sha256hex pf bytes) (Some m2) \<and>
         generateDedupeKey digest h
             (Some (m1\<lparr>authors := a, year := y, tags := ts, source_url := u\<rparr>))
           = generateDedupeKey digest h (Some m1)"
  using assms by (simp add: generateDedupeKey_def calculateFileHash_def)

text \<open>C4, at two metadata values that differ in authors, year and tags.\<close>

theorem C4_dedupe_key_canonical_fields_witness:
  "generateDedupeKey testDigest (testDigest ''%PDF-1.7 first'') (Some taggedFirst)
     = generateDedupeKey testDigest (testDigest ''%PDF-1.7 first'') (Some taggedSecond) \<and>
   fst (calculateFileHash testPlatform ''/docs/a.pdf'' (freshClient papersWorld))
     = Inr (testDigest ''%PDF-1.7 first'')"
proof -
  have t: "title taggedFirst = title taggedSecond" by (simp add: taggedFirst_def taggedSecond_def)
  have d: "doi taggedFirst = doi taggedSecond" by (simp add: taggedFirst_def taggedSecond_def)
  have r: "fsReadFile testPlatform ''/docs/a.pdf'' (world (freshClient papersWorld))
             = Inr ''%PDF-1.7 first''"
    by (simp add: testPlatform_def freshClient_def papersWorld_def)
  have s: "sha256hex testPlatform = testDigest" by (simp add: testPlatform_def)
  show ?thesis
    using C4_dedupe_key_canonical_fields [OF t d r r] by (simp add: s)
qed



section \<open>Properties of the client\<close>

subsection \<open>Actions that keep the store\<close>


























lemma resolveStoreIdIfUnset_cached:
  "\<not> falsy (storeId c) \<Longrightarrow> resolveStoreIdIfUnset pf c = (Inr (optOr (storeId c) []), c)"
  by (simp add: resolveStoreIdIfUnset_def resolve_def)

lemma andThen_Inr: "m c = (Inr v, c1) \<Longrightarrow> andThen m k c = k v c1"
  by (simp add: andThen_def)

lemma handleErrors_cong_at: "f c = g c \<Longrightarrow> handleErrors f c = handleErrors g c"
  by (simp add: handleErrors_def)











lemma resolveStoreIdIfUnset_stores:
  "resolveStoreIdIfUnset pf c = (Inr sid, c1) \<Longrightarrow> storeId c1 = Some sid"
  by (auto simp add: resolveStoreIdIfUnset_def falsy_def optOr_def andThen_def resolve_def
        reject_def storeNameNotConfigured_def split: if_splits option.splits prod.splits sum.splits)






subsection \<open>The store id is resolved once\<close>



subsection \<open>Creating a store under an existing name\<close>

lemma str_includes_append: "str_includes (pre @ needle @ post) needle"
proof (induction pre)
  case Nil
  have "startsWith (needle @ post) needle" by (simp add: startsWith_def)
  then show ?case by (cases "needle @ post") simp_all
next
  case (Cons ch pre)
  then show ?case by simp
qed

lemma listFileStores_ok:
  assumes "fetchListStores pf pageSize (world c) = (Inr response, w1)"
    and "ok response" and "body response = Inr listed"
  shows "listFileStores pf pageSize c =
           (Inr (case listed of None \<Rightarrow> [] | Some stores \<Rightarrow> stores),
            c\<lparr>world := w1, requests := requests c @ [ListStores pageSize]\<rparr>)"
  using assms
  by (simp add: listFileStores_def handleErrors_def andThen_def remote_def awaitBody_def
        resolve_def)

text \<open>
  C5 (amended). For every non-empty display name for which the listing of the stores
  (one page of 20) succeeds and contains a store with exactly that display name,
  \<open>createFileStore\<close> fails with the API_ERROR whose retryable flag is false, whose
  message names the id of the first such store, and which has no details; the listing is
  the only request it sends, so no store is created.
\<close>

theorem C5_existing_name_rejected:
  assumes nonEmpty: "dn \<noteq> []"
    and listing: "fetchListStores pf 20 (world c) = (Inr response, w1)"
    and success: "ok response"
    and payload: "body response = Inr listed"
    and found: "findByDisplayName dn (case listed of None \<Rightarrow> [] | Some stores \<Rightarrow> stores)
                  = Some existing"
  shows "createFileStore pf (Some dn) c =
           (Inl (ThrownMCP \<lparr>code = API_ERROR,
                            message = alreadyExistsMessage dn (name existing),
                            retryable = False, details = None\<rparr>),
            c\<lparr>world := w1, requests := requests c @ [ListStores 20]\<rparr>) \<and>
         str_includes (alreadyExistsMessage dn (name existing)) (name existing)"
proof -
  have "str_includes (alreadyExistsMessage dn (name existing)) (name existing)"
    unfolding alreadyExistsMessage_def
    using str_includes_append
      [of "''A File Store with display name '' @ [CHR 0x22] @ dn @ [CHR 0x22] @ '' already exists (ID: ''"
          "name existing" "''). Use a different name or use the existing store.''"]
    by simp
  moreover have "createFileStore pf (Some dn) c =
           (Inl (ThrownMCP \<lparr>code = API_ERROR,
                            message = alreadyExistsMessage dn (name existing),
                            retryable = False, details = None\<rparr>),
            c\<lparr>world := w1, requests := requests c @ [ListStores 20]\<rparr>)"
    using nonEmpty found
    by (simp add: createFileStore_def falsy_def optOr_def handleErrors_def andThen_def
          listFileStores_ok [OF listing success payload] reject_def apiError_def newMCPError_def)
  ultimately show ?thesis by simp
qed

text \<open>C5, at the name "papers" in a world that holds a store of that name.\<close>

theorem C5_existing_name_rejected_witness:
  "createFileStore testPlatform (Some ''papers'') (freshClient papersWorld) =
     (Inl (ThrownMCP \<lparr>code = API_ERROR,
                      message = alreadyExistsMessage ''papers'' ''fileSearchStores/abc123'',
                      retryable = False, details = None\<rparr>),
      (freshClient papersWorld)\<lparr>requests := [ListStores 20]\<rparr>)"
proof -
  have n: "''papers'' \<noteq> []" by simp
  have l: "fetchListStores testPlatform 20 (world (freshClient papersWorld))
             = (Inr (okResponse (Some [papersStore])), papersWorld)"
    by (simp add: testPlatform_def freshClient_def papersWorld_def)
  have o: "ok (okResponse (Some [papersStore]))" by (simp add: ok_def okResponse_def)
  have p: "body (okResponse (Some [papersStore])) = Inr (Some [papersStore])"
    by (simp add: okResponse_def)
  have f: "findByDisplayName ''papers'' (case Some [papersStore] of None \<Rightarrow> [] | Some stores \<Rightarrow> stores)
             = Some papersStore"
    by (simp add: findByDisplayName_def papersStore_def)
  show ?thesis
    using C5_existing_name_rejected [OF n l o p f]
    by (simp add: papersStore_def freshClient_def)
qed

text \<open>
  C5 as stated fails: the error for the existing name "papers" has no details, the id is
  in its message only. And for the empty display name the check is skipped: a store is
  created although one with the empty display name exists.
\<close>

theorem C5_no_details_counterexample:
  "fst (createFileStore testPlatform (Some ''papers'') (freshClient papersWorld)) =
     Inl (ThrownMCP \<lparr>code = API_ERROR,
                     message = alreadyExistsMessage ''papers'' ''fileSearchStores/abc123'',
                     retryable = False, details = None\<rparr>) \<and>
   displayName (hd (remoteStores emptyNameWorld)) = Some [] \<and>
   requests (snd (createFileStore testPlatform (Some []) (freshClient emptyNameWorld)))
     = [CreateStore None]"
  by code_simp

subsection \<open>Adding a document that is not there\<close>

text \<open>
  C6 (amended). When the client already holds a store id, add_document with a source that
  is no http(s) URL and no accessible local path fails with FILE_NOT_FOUND, not
  retryable, and leaves the client as it was: no request has been sent.
\<close>

theorem C6_missing_local_file_with_store_id:
  assumes cached: "\<not> falsy (storeId c)"
    and notHttp: "\<not> startsWith source ''http://''"
    and notHttps: "\<not> startsWith source ''https://''"
    and missing: "\<not> fsAccess pf source (world c)"
  shows "addDocument pf source md c =
           (Inl (ThrownMCP \<lparr>code = FILE_NOT_FOUND, message = ''File not found: '' @ source,
                            retryable = False, details = None\<rparr>), c)"
  using assms
  by (simp add: addDocument_def uploadDocument_def handleErrors_def andThen_def
        resolveStoreIdIfUnset_cached ensureLocalFile_def newMCPError_def)

text \<open>C6, at a missing path and a client that has resolved its store.\<close>

theorem C6_missing_local_file_with_store_id_witness:
  "addDocument testPlatform ''/missing.pdf'' None resolvedClient =
     (Inl (ThrownMCP \<lparr>code = FILE_NOT_FOUND, message = ''File not found: /missing.pdf'',
                      retryable = False, details = None\<rparr>), resolvedClient)"
proof -
  have a: "\<not> falsy (storeId resolvedClient)" by code_simp
  have b: "\<not> startsWith ''/missing.pdf'' ''http://''" by code_simp
  have c: "\<not> startsWith ''/missing.pdf'' ''https://''" by code_simp
  have d: "\<not> fsAccess testPlatform ''/missing.pdf'' (world resolvedClient)" by code_simp
  show ?thesis
    using C6_missing_local_file_with_store_id [OF a b c d, of None] by simp
qed

text \<open>
  C6 as stated fails: a fresh client resolves the store before it looks at the path. With
  the name "papers" configured and no such store, two listings and a creation have been
  sent when FILE_NOT_FOUND is raised; with no name configured the failure is
  STORE_NOT_FOUND.
\<close>

theorem C6_resolution_first_counterexample:
  "fst (addDocument testPlatform ''/missing.pdf'' None (freshClient emptyWorld)) =
     Inl (ThrownMCP \<lparr>code = FILE_NOT_FOUND, message = ''File not found: /missing.pdf'',
                     retryable = False, details = None\<rparr>) \<and>
   requests (snd (addDocument testPlatform ''/missing.pdf'' None (freshClient emptyWorld)))
     = [ListStores 20, ListStores 20, CreateStore (Some ''papers'')] \<and>
   fst (addDocument testPlatform ''/missing.pdf'' None ((freshClient emptyWorld)\<lparr>storeName := None\<rparr>))
     = Inl storeNameNotConfigured"
  by code_simp

subsection \<open>Pages of the document list\<close>

lemma toDocument_total: "\<exists>doc c1. toDocument pf file c = (Inr doc, c1)"
  by (simp add: toDocument_def split: prod.splits)

lemma toDocuments_total:
  "\<exists>allDocs c1. toDocuments pf files acc c = (Inr allDocs, c1)
      \<and> length allDocs = length acc + length files"
proof (induction files arbitrary: acc c)
  case Nil
  then show ?case by (simp add: resolve_def)
next
  case (Cons f files)
  obtain doc c1 where d: "toDocument pf f c = (Inr doc, c1)"
    using toDocument_total by blast
  obtain allDocs c2 where r: "toDocuments pf files (acc @ [doc]) c1 = (Inr allDocs, c2)"
      and l: "length allDocs = length (acc @ [doc]) + length files"
    using Cons.IH by blast
  show ?case using d r l by (simp add: andThen_def)
qed

lemma jsSlice_from:
  assumes "0 \<le> k" and "0 \<le> n"
  shows "jsSlice xs k (k + n) = take (nat n) (drop (nat k) xs)"
proof (cases "k \<le> int (length xs)")
  case False
  then have "length xs \<le> nat k" by linarith
  then show ?thesis using assms False by (simp add: jsSlice_def Let_def min_def)
next
  case True
  show ?thesis
  proof (cases "k + n \<le> int (length xs)")
    case True
    then show ?thesis using assms \<open>k \<le> int (length xs)\<close>
      by (simp add: jsSlice_def Let_def min_def)
  next
    case False
    then have "length (drop (nat k) xs) \<le> nat n" using assms by simp
    moreover have "length (drop (nat k) xs) \<le> nat (int (length xs) - k)"
      using assms by simp
    ultimately show ?thesis using assms \<open>k \<le> int (length xs)\<close> False
      by (simp add: jsSlice_def Let_def min_def)
  qed
qed

lemma jsSlice_page:
  assumes "1 \<le> page" and "1 \<le> pageSize"
  shows "jsSlice xs ((page - 1) * pageSize) ((page - 1) * pageSize + pageSize)
           = take (nat pageSize) (drop (nat ((page - 1) * pageSize)) xs)"
  using assms by (intro jsSlice_from) simp_all

text \<open>
  C9. For every page number and page size of at least 1, when the listing of the files
  succeeds, \<open>listDocuments\<close> returns the converted documents from index
  \<open>(page - 1) * pageSize\<close> up to, and not including, \<open>(page - 1) * pageSize + pageSize\<close>,
  with the length of the whole list as the total count; a page that starts past the end
  is empty and still a success.
\<close>

theorem C9_listDocuments_page:
  assumes page: "1 \<le> page" and pageSize: "1 \<le> pageSize"
    and listed: "withRetry (remote ListFiles (listFiles pf)) defaultRetryOptions c
                   = (Inr listFilesResponse, c1)"
  shows "\<exists>allDocuments c2.
           toDocuments pf (case listFilesResponse of None \<Rightarrow> [] | Some files \<Rightarrow> files) [] c1
             = (Inr allDocuments, c2) \<and>
           length allDocuments
             = length (case listFilesResponse of None \<Rightarrow> [] | Some files \<Rightarrow> files) \<and>
           listDocuments pf page pageSize c =
             (Inr \<lparr>documents = take (nat pageSize) (drop (nat ((page - 1) * pageSize)) allDocuments),
                   totalCount = length allDocuments\<rparr>, c2) \<and>
           (int (length allDocuments) \<le> (page - 1) * pageSize \<longrightarrow>
              listDocuments pf page pageSize c
                = (Inr \<lparr>documents = [], totalCount = length allDocuments\<rparr>, c2))"
proof -
  obtain allDocuments c2 where
    conv: "toDocuments pf (case listFilesResponse of None \<Rightarrow> [] | Some files \<Rightarrow> files) [] c1
             = (Inr allDocuments, c2)"
    and len: "length allDocuments
             = length (case listFilesResponse of None \<Rightarrow> [] | Some files \<Rightarrow> files)"
    using toDocuments_total
      [of pf "case listFilesResponse of None \<Rightarrow> [] | Some files \<Rightarrow> files" "[]" c1]
    by auto
  have run: "listDocuments pf page pageSize c =
             (Inr \<lparr>documents = take (nat pageSize) (drop (nat ((page - 1) * pageSize)) allDocuments),
                   totalCount = length allDocuments\<rparr>, c2)"
    by (simp add: listDocuments_def handleErrors_def andThen_def listed conv resolve_def
          jsSlice_page [OF page pageSize])
  have "drop (nat ((page - 1) * pageSize)) allDocuments = []"
    if "int (length allDocuments) \<le> (page - 1) * pageSize"
    using that by simp
  with conv len run show ?thesis by auto
qed


text \<open>C9, at the second and the fourth page of size 1 of a list of two files.\<close>

theorem C9_listDocuments_page_witness:
  "fst (listDocuments testPlatform 2 1 libraryClient) =
     Inr \<lparr>documents =
            [\<lparr>doc_id = ''files/b'', store_id = ''unknown'', file_name = ''b.txt'',
              file_uri = ''https://files.test/b.txt'', mime_type = ''application/octet-stream'',
              size_bytes = Some 0, created_at = ''2025-01-01T00:00:00.000Z'',
              metadata = emptyMetadata, hash = [], dedupe_key = []\<rparr>],
          totalCount = 2\<rparr> \<and>
   fst (listDocuments testPlatform 4 1 libraryClient) = Inr \<lparr>documents = [], totalCount = 2\<rparr>"
proof -
  let ?c1 = "libraryClient\<lparr>requests := [ListFiles]\<rparr>"
  have listed: "withRetry (remote ListFiles (listFiles testPlatform)) defaultRetryOptions libraryClient
                  = (Inr (Some [fileA, fileB]), ?c1)"
    by (simp add: withRetry_def retryWithBackoff_def retryLoop.simps defaultRetryOptions_def
          remote_def testPlatform_def libraryClient_def freshClient_def papersWorld_def Let_def)
  have conv: "fst (toDocuments testPlatform [fileA, fileB] [] ?c1) =
      Inr [\<lparr>doc_id = ''files/a'', store_id = ''unknown'', file_name = ''a.pdf'',
              file_uri = ''https://files.test/a'', mime_type = ''application/pdf'',
              size_bytes = Some 0, created_at = ''2025-01-01T00:00:00.000Z'',
              metadata = emptyMetadata, hash = [], dedupe_key = []\<rparr>,
           \<lparr>doc_id = ''files/b'', store_id = ''unknown'', file_name = ''b.txt'',
              file_uri = ''https://files.test/b.txt'', mime_type = ''application/octet-stream'',
              size_bytes = Some 0, created_at = ''2025-01-01T00:00:00.000Z'',
              metadata = emptyMetadata, hash = [], dedupe_key = []\<rparr>]"
    by code_simp
  show ?thesis
    using C9_listDocuments_page [OF _ _ listed, of 2 1] C9_listDocuments_page [OF _ _ listed, of 4 1]
      conv
    by auto
qed


end
